theory Spec2Isabelle
  imports Complex_Main "HOL-Library.Word"
begin

unbundle bit_operations_syntax

section \<open>Errors and Python floats\<close>

text \<open>
  The exceptions the program can raise: \<open>ValueError\<close> (raised by \<open>bbox_from_polys\<close>
  itself and by numpy's reduction of an empty array), \<open>SystemExit\<close> (the
  \<open>sys.exit(1)\<close> of \<open>load_grayscale\<close>) and \<open>ArgumentError\<close>, the exception that
  leaves \<open>cv2.threshold\<close> when its threshold does not convert to a C double (Python's
  \<open>OverflowError\<close>, which recent OpenCV bindings raise again as \<open>cv2.error\<close>).
\<close>

datatype py_error = ValueError string | SystemExit int | ArgumentError

text \<open>
  A Python float: a finite number, one of the two infinities the bounding-box accumulators
  start from, or NaN. Finite floats are compared, and their minimum and maximum taken,
  exactly as the numbers they denote; sums and differences of finite floats are taken
  without rounding, which is what happens on the pixel coordinates the program handles.
\<close>

datatype pyfloat = NegInf | Fin real | PosInf | NaN

text \<open>The comparison \<open>a < b\<close>; it is false whenever an operand is NaN.\<close>

fun pf_less :: "pyfloat \<Rightarrow> pyfloat \<Rightarrow> bool" where
  "pf_less NegInf (Fin b) = True"
| "pf_less NegInf PosInf = True"
| "pf_less (Fin a) (Fin b) = (a < b)"
| "pf_less (Fin a) PosInf = True"
| "pf_less _ _ = False"

text \<open>Python's \<open>min(a, b)\<close> and \<open>max(a, b)\<close>: the first argument is kept unless the
  second is strictly smaller (larger).\<close>

definition py_min :: "pyfloat \<Rightarrow> pyfloat \<Rightarrow> pyfloat" where
  "py_min a b = (if pf_less b a then b else a)"

definition py_max :: "pyfloat \<Rightarrow> pyfloat \<Rightarrow> pyfloat" where
  "py_max a b = (if pf_less a b then b else a)"

text \<open>Adding a finite offset to a float.\<close>

fun pf_add :: "pyfloat \<Rightarrow> real \<Rightarrow> pyfloat" where
  "pf_add NegInf d = NegInf"
| "pf_add (Fin a) d = Fin (a + d)"
| "pf_add PosInf d = PosInf"
| "pf_add NaN d = NaN"

text \<open>The difference \<open>a - b\<close> of two floats.\<close>

fun pf_sub :: "pyfloat \<Rightarrow> pyfloat \<Rightarrow> pyfloat" where
  "pf_sub (Fin a) (Fin b) = Fin (a - b)"
| "pf_sub NaN _ = NaN"
| "pf_sub _ NaN = NaN"
| "pf_sub PosInf PosInf = NaN"
| "pf_sub NegInf NegInf = NaN"
| "pf_sub PosInf _ = PosInf"
| "pf_sub NegInf _ = NegInf"
| "pf_sub (Fin a) PosInf = NegInf"
| "pf_sub (Fin a) NegInf = PosInf"

section \<open>The bounding-box reducer\<close>

type_synonym point = "real \<times> real"

text \<open>
  The polygons \<open>bbox_from_polys\<close> accepts, by its docstring: \<open>None\<close> (skipped), a Python
  list of \<open>(x, y)\<close> pairs, and a numpy array of shape \<open>(N, 1, 2)\<close> (an OpenCV contour) or
  \<open>(N, 2)\<close>.
\<close>

datatype poly = PyNone | PyList "point list" | NdArray3 "point list" | NdArray2 "point list"

fun points :: "poly \<Rightarrow> point list" where
  "points PyNone = []"
| "points (PyList ps) = ps"
| "points (NdArray3 ps) = ps"
| "points (NdArray2 ps) = ps"

text \<open>The shape of \<open>np.asarray(poly)\<close>: an empty Python list becomes a one-dimensional
  array of length 0, a non-empty list of pairs an \<open>(N, 2)\<close> array.\<close>

fun shape :: "poly \<Rightarrow> nat list" where
  "shape PyNone = []"
| "shape (PyList ps) = (if ps = [] then [0] else [length ps, 2])"
| "shape (NdArray3 ps) = [length ps, 1, 2]"
| "shape (NdArray2 ps) = [length ps, 2]"

record bbox_acc =
  min_x :: pyfloat
  min_y :: pyfloat
  max_x :: pyfloat
  max_y :: pyfloat
  n_points :: nat

definition bbox_init :: bbox_acc where
  "bbox_init = \<lparr>min_x = PosInf, min_y = PosInf, max_x = NegInf, max_y = NegInf, n_points = 0\<rparr>"

text \<open>The fallback loop \<open>for pt in poly\<close> of lines 143 to 149.\<close>

fun bbox_fallback :: "bbox_acc \<Rightarrow> point list \<Rightarrow> bbox_acc" where
  "bbox_fallback a [] = a"
| "bbox_fallback a ((x, y) # ps) =
     bbox_fallback
       \<lparr>min_x = py_min (min_x a) (Fin x), min_y = py_min (min_y a) (Fin y),
        max_x = py_max (max_x a) (Fin x), max_y = py_max (max_y a) (Fin y),
        n_points = n_points a + 1\<rparr> ps"

text \<open>numpy's \<open>arr.min()\<close> and \<open>arr.max()\<close>: an empty array has no minimum and the
  reduction raises \<open>ValueError\<close>.\<close>

definition np_min :: "real list \<Rightarrow> py_error + real" where
  "np_min xs = (case xs of
      [] \<Rightarrow> Inl (ValueError ''zero-size array to reduction operation minimum which has no identity'')
    | x # r \<Rightarrow> Inr (fold min r x))"

definition np_max :: "real list \<Rightarrow> py_error + real" where
  "np_max xs = (case xs of
      [] \<Rightarrow> Inl (ValueError ''zero-size array to reduction operation maximum which has no identity'')
    | x # r \<Rightarrow> Inr (fold max r x))"

text \<open>The fast path of lines 155 to 161, on the \<open>(N, 2)\<close> array \<open>arr\<close>.\<close>

definition bbox_fast :: "bbox_acc \<Rightarrow> point list \<Rightarrow> py_error + bbox_acc" where
  "bbox_fast a arr =
     (let xs = map fst arr; ys = map snd arr in
      case np_min xs of Inl e \<Rightarrow> Inl e | Inr mnx \<Rightarrow>
     (case np_min ys of Inl e \<Rightarrow> Inl e | Inr mny \<Rightarrow>
     (case np_max xs of Inl e \<Rightarrow> Inl e | Inr mxx \<Rightarrow>
     (case np_max ys of Inl e \<Rightarrow> Inl e | Inr mxy \<Rightarrow>
        Inr \<lparr>min_x = py_min (min_x a) (Fin mnx), min_y = py_min (min_y a) (Fin mny),
             max_x = py_max (max_x a) (Fin mxx), max_y = py_max (max_y a) (Fin mxy),
             n_points = n_points a + length arr\<rparr>))))"

text \<open>One turn of the loop \<open>for poly in polys\<close>.\<close>

definition bbox_poly :: "bbox_acc \<Rightarrow> poly \<Rightarrow> py_error + bbox_acc" where
  "bbox_poly a p =
     (if p = PyNone then Inr a
      else let sh = shape p in
        if length sh = 3 \<and> last sh = 2 then bbox_fast a (points p)
        else if length sh = 2 \<and> last sh = 2 then bbox_fast a (points p)
        else Inr (bbox_fallback a (points p)))"

fun bbox_loop :: "bbox_acc \<Rightarrow> poly list \<Rightarrow> py_error + bbox_acc" where
  "bbox_loop a [] = Inr a"
| "bbox_loop a (p # ps) =
     (case bbox_poly a p of Inl e \<Rightarrow> Inl e | Inr a' \<Rightarrow> bbox_loop a' ps)"

type_synonym bbox = "pyfloat \<times> pyfloat \<times> pyfloat \<times> pyfloat"

definition bbox_from_polys :: "poly list \<Rightarrow> py_error + bbox" where
  "bbox_from_polys polys =
     (case bbox_loop bbox_init polys of
        Inl e \<Rightarrow> Inl e
      | Inr a \<Rightarrow>
          if n_points a = 0 then Inl (ValueError ''bbox_from_polys: empty polygon/contour list'')
          else Inr (min_x a, min_y a, max_x a, max_y a))"

text \<open>The total number of points across all supplied polygons.\<close>

definition total_points :: "poly list \<Rightarrow> nat" where
  "total_points polys = sum_list (map (length \<circ> points) polys)"

text \<open>Translating every point of every polygon by \<open>(dx, dy)\<close>, and a box by the same
  offset.\<close>

definition shift_pt :: "real \<Rightarrow> real \<Rightarrow> point \<Rightarrow> point" where
  "shift_pt dx dy p = (fst p + dx, snd p + dy)"

fun translate_poly :: "real \<Rightarrow> real \<Rightarrow> poly \<Rightarrow> poly" where
  "translate_poly dx dy PyNone = PyNone"
| "translate_poly dx dy (PyList ps) = PyList (map (shift_pt dx dy) ps)"
| "translate_poly dx dy (NdArray3 ps) = NdArray3 (map (shift_pt dx dy) ps)"
| "translate_poly dx dy (NdArray2 ps) = NdArray2 (map (shift_pt dx dy) ps)"

definition translate :: "real \<Rightarrow> real \<Rightarrow> poly list \<Rightarrow> poly list" where
  "translate dx dy polys = map (translate_poly dx dy) polys"

fun shift_box :: "real \<Rightarrow> real \<Rightarrow> bbox \<Rightarrow> bbox" where
  "shift_box dx dy (a, b, c, d) = (pf_add a dx, pf_add b dy, pf_add c dx, pf_add d dy)"

text \<open>The accumulator of the loop, translated.\<close>

definition shift_acc :: "real \<Rightarrow> real \<Rightarrow> bbox_acc \<Rightarrow> bbox_acc" where
  "shift_acc dx dy a =
     \<lparr>min_x = pf_add (min_x a) dx, min_y = pf_add (min_y a) dy,
      max_x = pf_add (max_x a) dx, max_y = pf_add (max_y a) dy, n_points = n_points a\<rparr>"

text \<open>
  The accumulator the loop holds once it has seen the points \<open>seen\<close>, and the polygons
  that are not a numpy array without points.
\<close>

definition acc_of :: "point list \<Rightarrow> bbox_acc" where
  "acc_of seen =
     (if seen = [] then bbox_init
      else \<lparr>min_x = Fin (Min (set (map fst seen))), min_y = Fin (Min (set (map snd seen))),
            max_x = Fin (Max (set (map fst seen))), max_y = Fin (Max (set (map snd seen))),
            n_points = length seen\<rparr>)"

definition no_empty_array :: "poly \<Rightarrow> bool" where
  "no_empty_array p = (case p of NdArray3 ps \<Rightarrow> ps \<noteq> [] | NdArray2 ps \<Rightarrow> ps \<noteq> [] | _ \<Rightarrow> True)"

section \<open>Images, masks and the pixel operations of the library\<close>

text \<open>
  A grayscale image is a numpy array of \<open>uint8\<close>, here the list of its rows. A mask is
  an image whose pixels are all 0 or 255.
\<close>

type_synonym pixel = "8 word"
type_synonym image = "pixel list list"

definition height :: "image \<Rightarrow> nat" where
  "height img = length img"

definition width :: "image \<Rightarrow> nat" where
  "width img = (case img of [] \<Rightarrow> 0 | r # _ \<Rightarrow> length r)"

definition is_mask :: "image \<Rightarrow> bool" where
  "is_mask m = list_all (list_all (\<lambda>p. p = 0 \<or> p = 255)) m"

definition all_background :: "image \<Rightarrow> bool" where
  "all_background m = list_all (list_all (\<lambda>p. p = 0)) m"

definition np_zeros :: "nat \<Rightarrow> nat \<Rightarrow> image" where
  "np_zeros h w = replicate h (replicate w 0)"

definition np_ones :: "nat \<Rightarrow> nat \<Rightarrow> image" where
  "np_ones h w = replicate h (replicate w 1)"

definition bitwise_not :: "image \<Rightarrow> image" where
  "bitwise_not src = map (map (\<lambda>p. NOT p)) src"

definition bitwise_and :: "image \<Rightarrow> image \<Rightarrow> image" where
  "bitwise_and a b = map2 (map2 (\<lambda>p q. p AND q)) a b"

text \<open>
  Modelled from the spec: \<open>cv2.dilate\<close> and \<open>cv2.erode\<close> are OpenCV code, outside the
  repository (section 4.2, Morphology Ops). The structuring element is anchored at its
  centre; a pixel of the result is the maximum (dilation) or the minimum (erosion) of the
  source pixels under the non-zero entries of the element, and positions outside the image
  do not count. The operation is applied \<open>iterations\<close> times, so that zero iterations
  pass the source through.
\<close>

definition window :: "image \<Rightarrow> image \<Rightarrow> nat \<Rightarrow> nat \<Rightarrow> pixel list" where
  "window src kern r c =
     (let ay = height kern div 2; ax = width kern div 2 in
      [src ! (r + i - ay) ! (c + j - ax).
         i \<leftarrow> [0..<height kern], j \<leftarrow> [0..<length (kern ! i)],
         kern ! i ! j \<noteq> 0,
         ay \<le> r + i, r + i - ay < length src,
         ax \<le> c + j, c + j - ax < length (src ! (r + i - ay))])"

definition dilate_once :: "image \<Rightarrow> image \<Rightarrow> image" where
  "dilate_once kern src =
     map (\<lambda>r. map (\<lambda>c. fold max (window src kern r c) 0) [0..<length (src ! r)])
       [0..<length src]"

definition erode_once :: "image \<Rightarrow> image \<Rightarrow> image" where
  "erode_once kern src =
     map (\<lambda>r. map (\<lambda>c. fold min (window src kern r c) 255) [0..<length (src ! r)])
       [0..<length src]"

fun dilate :: "image \<Rightarrow> image \<Rightarrow> nat \<Rightarrow> image" where
  "dilate src kern 0 = src"
| "dilate src kern (Suc n) = dilate (dilate_once kern src) kern n"

fun erode :: "image \<Rightarrow> image \<Rightarrow> nat \<Rightarrow> image" where
  "erode src kern 0 = src"
| "erode src kern (Suc n) = erode (erode_once kern src) kern n"

section \<open>The library interface\<close>

text \<open>
  A contour is an OpenCV point array of shape \<open>(N, 1, 2)\<close> with integer coordinates
  \<open>(x, y)\<close>. The geometric routines of OpenCV and \<open>os.path.splitext\<close> are parameters of
  the model: \<open>filled cs r c\<close> says whether \<open>cv2.drawContours\<close> with \<open>thickness=FILLED\<close>
  paints the pixel in row \<open>r\<close> and column \<open>c\<close> when it draws the contours \<open>cs\<close>,
  \<open>splitext_base p\<close> is \<open>os.path.splitext(p)[0]\<close>, and \<open>float_to_int_overflow t\<close> is the
  32-bit integer that OpenCV's \<open>cvFloor\<close> yields for the threshold \<open>t\<close> when \<open>t\<close> is outside
  the 32-bit range, a conversion that C leaves undefined and that depends on the build.
\<close>

type_synonym contour = "(int \<times> int) list"

datatype retr_mode = RETR_EXTERNAL | RETR_TREE

record lib =
  GaussianBlur :: "image \<Rightarrow> nat \<Rightarrow> image"
  findContours :: "image \<Rightarrow> retr_mode \<Rightarrow> contour list"
  contourArea :: "contour \<Rightarrow> real"
  arcLength :: "contour \<Rightarrow> real"
  approxPolyDP :: "contour \<Rightarrow> real \<Rightarrow> contour"
  filled :: "contour list \<Rightarrow> nat \<Rightarrow> nat \<Rightarrow> bool"
  splitext_base :: "string \<Rightarrow> string"
  float_to_int_overflow :: "int \<Rightarrow> int"

text \<open>\<open>cv2.drawContours(img, contours, contourIdx=-1, color, thickness=cv2.FILLED)\<close>.\<close>

definition drawContours :: "lib \<Rightarrow> image \<Rightarrow> contour list \<Rightarrow> pixel \<Rightarrow> image" where
  "drawContours L img contours color =
     map (\<lambda>r. map (\<lambda>c. if filled L contours r c then color else img ! r ! c)
                [0..<length (img ! r)])
       [0..<length img]"

text \<open>
  \<open>cv2.threshold\<close> is OpenCV code, outside the repository. Its Python binding converts
  the threshold to a C double, and raises when the Python integer is too large for one,
  which is from \<open>2 ^ 1024 - 2 ^ 970\<close> on in magnitude. On an 8-bit image OpenCV then floors
  the double to a 32-bit integer with \<open>cvFloor\<close>: a threshold within the 32-bit range is
  kept as it is, one outside it becomes whatever the build's conversion yields. With the
  floored threshold it does what it documents: \<open>THRESH_BINARY\<close> gives \<open>maxval\<close> where
  \<open>src > thresh\<close> and 0 elsewhere, \<open>THRESH_BINARY_INV\<close> gives 0 where \<open>src > thresh\<close> and
  \<open>maxval\<close> elsewhere. The program passes the integer \<open>args.threshold\<close> and
  \<open>maxval = 255\<close>.
\<close>

datatype thresh_type = THRESH_BINARY | THRESH_BINARY_INV

definition double_overflow :: "int \<Rightarrow> bool" where
  "double_overflow t = (2 ^ 1024 - 2 ^ 970 \<le> \<bar>t\<bar>)"

definition cvFloor :: "lib \<Rightarrow> int \<Rightarrow> int" where
  "cvFloor L t = (if - (2 ^ 31) \<le> t \<and> t < 2 ^ 31 then t else float_to_int_overflow L t)"

definition threshold_px :: "lib \<Rightarrow> thresh_type \<Rightarrow> int \<Rightarrow> pixel \<Rightarrow> pixel \<Rightarrow> pixel" where
  "threshold_px L ty thresh maxval v =
     (let ithresh = cvFloor L thresh in
      case ty of
        THRESH_BINARY \<Rightarrow> (if uint v > ithresh then maxval else 0)
      | THRESH_BINARY_INV \<Rightarrow> (if uint v > ithresh then 0 else maxval))"

definition threshold :: "lib \<Rightarrow> image \<Rightarrow> int \<Rightarrow> pixel \<Rightarrow> thresh_type \<Rightarrow> image" where
  "threshold L src thresh maxval ty = map (map (threshold_px L ty thresh maxval)) src"

section \<open>The functions of the program\<close>

record args =
  input_arg :: string
  output_arg :: string
  threshold_arg :: int
  invert :: bool
  blur :: int
  outline_offset :: int
  simplify :: real
  min_area :: real
  debug :: bool

definition binarize :: "lib \<Rightarrow> image \<Rightarrow> int \<Rightarrow> int \<Rightarrow> bool \<Rightarrow> py_error + image" where
  "binarize L img_gray thresh_val blur_k invert_flag =
     (let img1 = (if blur_k \<noteq> 0 \<and> blur_k > 0 \<and> blur_k mod 2 = 1
                  then GaussianBlur L img_gray (nat blur_k) else img_gray)
      in if double_overflow thresh_val then Inl ArgumentError
         else (let binary = threshold L img1 thresh_val 255 THRESH_BINARY_INV
               in Inr (if invert_flag then bitwise_not binary else binary)))"

definition find_contours :: "lib \<Rightarrow> image \<Rightarrow> retr_mode \<Rightarrow> contour list" where
  "find_contours L binary mode = findContours L binary mode"

definition simplify_contour :: "lib \<Rightarrow> contour \<Rightarrow> real \<Rightarrow> contour" where
  "simplify_contour L cnt factor =
     (let peri = arcLength L cnt; epsilon = factor * peri in approxPolyDP L cnt epsilon)"

text \<open>The format \<open>f"{float(x):.2f}"\<close> of an integer coordinate.\<close>

definition digit_char :: "nat \<Rightarrow> char" where
  "digit_char n = ''0123456789'' ! n"

fun digits :: "nat \<Rightarrow> string" where
  "digits n = (if n < 10 then [digit_char n] else digits (n div 10) @ [digit_char (n mod 10)])"

definition fmt2 :: "int \<Rightarrow> string" where
  "fmt2 x = (if x < 0 then ''-'' else []) @ digits (nat \<bar>x\<bar>) @ ''.00''"

text \<open>Python's \<open>" ".join(parts)\<close>.\<close>

fun join_sp :: "string list \<Rightarrow> string" where
  "join_sp [] = []"
| "join_sp [s] = s"
| "join_sp (s # t # r) = s @ '' '' @ join_sp (t # r)"

definition contour_to_path_d :: "contour \<Rightarrow> string" where
  "contour_to_path_d pts =
     (case pts of
        [] \<Rightarrow> []
      | (x0, y0) # r \<Rightarrow>
          join_sp ([''M '' @ fmt2 x0 @ '','' @ fmt2 y0]
                   @ map (\<lambda>(x, y). ''L '' @ fmt2 x @ '','' @ fmt2 y) r
                   @ [''Z'']))"

definition contours_to_compound_path_d :: "contour list \<Rightarrow> string" where
  "contours_to_compound_path_d contours =
     join_sp (filter (\<lambda>d. d \<noteq> []) (map contour_to_path_d contours))"

text \<open>
  An \<open>svgwrite\<close> drawing: its file name, size and view box, the profile and extra
  attributes it was created with, and the elements added to it, in order.
\<close>

record svg_path =
  path_d :: string
  fill :: string
  stroke :: string
  stroke_width :: "int option"
  fill_rule :: "string option"

datatype svg_element = Path svg_path | Group string "(string \<times> string) list" "svg_path list"

record drawing =
  filename :: string
  size_px :: "nat \<times> nat"
  viewBox :: "nat \<times> nat \<times> nat \<times> nat"
  profile :: "string option"
  attribs :: "(string \<times> string) list"
  elements :: "svg_element list"

definition stroked_paths :: "contour list \<Rightarrow> svg_path list" where
  "stroked_paths contours =
     map (\<lambda>d. \<lparr>path_d = d, fill = ''none'', stroke = ''black'', stroke_width = Some 1,
               fill_rule = None\<rparr>)
       (filter (\<lambda>d. d \<noteq> []) (map contour_to_path_d contours))"

definition layer_attrs :: "string \<Rightarrow> (string \<times> string) list" where
  "layer_attrs name = [(''inkscape:groupmode'', ''layer''), (''inkscape:label'', name)]"

definition create_svg :: "nat \<Rightarrow> nat \<Rightarrow> contour list \<Rightarrow> contour list \<Rightarrow> string \<Rightarrow> drawing" where
  "create_svg w h outline_cs detail_cs output_path =
     \<lparr>filename = output_path, size_px = (w, h), viewBox = (0, 0, w, h), profile = None,
      attribs = [(''xmlns:inkscape'', ''http://www.inkscape.org/namespaces/inkscape'')],
      elements = [Group ''outline'' (layer_attrs ''outline'') (stroked_paths outline_cs),
                  Group ''detail'' (layer_attrs ''detail'') (stroked_paths detail_cs)]\<rparr>"

definition write_svg_single_group :: "nat \<Rightarrow> nat \<Rightarrow> contour list \<Rightarrow> string \<Rightarrow> drawing" where
  "write_svg_single_group w h contours output_path =
     \<lparr>filename = output_path, size_px = (w, h), viewBox = (0, 0, w, h), profile = Some ''full'',
      attribs = [],
      elements = map (\<lambda>d. Path \<lparr>path_d = d, fill = ''black'', stroke = ''none'',
                                 stroke_width = None, fill_rule = None\<rparr>)
                   (filter (\<lambda>d. d \<noteq> []) (map contour_to_path_d contours))\<rparr>"

definition write_svg_detail_evenodd :: "nat \<Rightarrow> nat \<Rightarrow> contour list \<Rightarrow> string \<Rightarrow> drawing" where
  "write_svg_detail_evenodd w h contours output_path =
     (let d = contours_to_compound_path_d contours in
      \<lparr>filename = output_path, size_px = (w, h), viewBox = (0, 0, w, h),
       profile = Some ''full'', attribs = [],
       elements = (if d \<noteq> [] then
                     [Path \<lparr>path_d = d, fill = ''black'', stroke = ''none'',
                            stroke_width = None, fill_rule = Some ''evenodd''\<rparr>]
                   else [])\<rparr>)"

section \<open>The run of \<open>main\<close>\<close>

text \<open>
  Python's \<open>max(xs, key=f)\<close> on a non-empty sequence: the first element is the candidate,
  and a later element replaces it only when its key is strictly greater.
\<close>

fun py_max_by :: "('a \<Rightarrow> real) \<Rightarrow> 'a \<Rightarrow> 'a list \<Rightarrow> 'a" where
  "py_max_by key best [] = best"
| "py_max_by key best (c # cs) = py_max_by key (if key best < key c then c else best) cs"

text \<open>The values \<open>main\<close> computes between loading the image and writing the files, once
  \<open>cv2.threshold\<close> has accepted the threshold.\<close>

record locals =
  shape_mask_thresholded :: image
  shape_mask :: image
  outline_contours :: "contour list"
  outline_contours_filtered :: "contour list"
  silhouette_mask :: image
  white_mask :: image
  white_inside :: image
  white_inside_eroded :: image
  detail_contours :: "contour list"
  detail_contours_filtered :: "contour list"

definition pipeline :: "lib \<Rightarrow> args \<Rightarrow> image \<Rightarrow> locals" where
  "pipeline L a img_gray =
     (let h = height img_gray; w = width img_gray;
          thresholded = threshold L img_gray (threshold_arg a) 255 THRESH_BINARY_INV;
          shape = (if outline_offset a > 0 then
                     (let kernel_size = max 1 (outline_offset a * 2 + 1);
                          kern = np_ones (nat kernel_size) (nat kernel_size)
                      in dilate thresholded kern (Suc 0))
                   else thresholded);
          outline_cs = find_contours L shape RETR_EXTERNAL;
          outline_filtered =
            (case outline_cs of
               [] \<Rightarrow> []
             | c # cs \<Rightarrow>
                 (let largest = py_max_by (contourArea L) c cs;
                      cnt_simplified = simplify_contour L largest (simplify a)
                  in [cnt_simplified]));
          silhouette =
            (case outline_cs of
               [] \<Rightarrow> np_zeros h w
             | c # cs \<Rightarrow> drawContours L (np_zeros h w) outline_filtered 255);
          white = threshold L img_gray (threshold_arg a) 255 THRESH_BINARY;
          inside = bitwise_and white silhouette;
          detail_kernel = np_ones 3 3;
          eroded = erode inside detail_kernel 0;
          detail_cs = find_contours L eroded RETR_TREE;
          detail_filtered =
            [simplify_contour L cnt 0.002. cnt \<leftarrow> detail_cs, \<not> contourArea L cnt < 2.0]
      in \<lparr>shape_mask_thresholded = thresholded, shape_mask = shape,
          outline_contours = outline_cs, outline_contours_filtered = outline_filtered,
          silhouette_mask = silhouette, white_mask = white, white_inside = inside,
          white_inside_eroded = eroded, detail_contours = detail_cs,
          detail_contours_filtered = detail_filtered\<rparr>)"

text \<open>
  What a run does to the outside world, in order: lines on the two streams, drawings
  saved, debug images written, and the metadata file with the two dimensions it holds.
\<close>

datatype event =
    Stderr string
  | Stdout string
  | Save drawing
  | ImWrite string image
  | ImWriteBGR string "(pixel \<times> pixel \<times> pixel) list list"
  | WriteMeta string pyfloat pyfloat

definition debug_overlay :: "image \<Rightarrow> image \<Rightarrow> (pixel \<times> pixel \<times> pixel) list list" where
  "debug_overlay silhouette eroded =
     map2 (map2 (\<lambda>s e. if e = 255 then (0, 255, 0) else if s = 255 then (0, 0, 255) else (0, 0, 0)))
       silhouette eroded"

definition to_poly :: "contour \<Rightarrow> poly" where
  "to_poly cnt = NdArray3 (map (\<lambda>(x, y). (real_of_int x, real_of_int y)) cnt)"

definition serialize_events :: "lib \<Rightarrow> args \<Rightarrow> nat \<Rightarrow> nat \<Rightarrow> locals \<Rightarrow> event list" where
  "serialize_events L a w h v =
     (let base = splitext_base L (output_arg a) in
      [Save (create_svg w h (outline_contours_filtered v) (detail_contours_filtered v) (output_arg a)),
       Stdout (''Saved layered SVG to: '' @ output_arg a),
       Save (write_svg_single_group w h (outline_contours_filtered v) (base @ ''_outline.svg'')),
       Save (write_svg_detail_evenodd w h (detail_contours_filtered v) (base @ ''_detail.svg'')),
       Stdout (''Wrote: '' @ base @ ''_outline.svg and '' @ base @ ''_detail.svg'')])"

definition debug_events :: "args \<Rightarrow> locals \<Rightarrow> event list" where
  "debug_events a v =
     (if debug a then
        [ImWrite ''debug_shape_mask.png'' (shape_mask v),
         ImWrite ''debug_silhouette_mask.png'' (silhouette_mask v),
         ImWrite ''debug_white_inside.png'' (white_inside v),
         ImWrite ''debug_white_inside_eroded.png'' (white_inside_eroded v),
         ImWriteBGR ''debug_overlay.png'' (debug_overlay (silhouette_mask v) (white_inside_eroded v)),
         Stdout ''Wrote debug_* PNGs in current directory.'']
      else [])"

definition warning_events :: "locals \<Rightarrow> event list" where
  "warning_events v =
     (if outline_contours v = []
      then [Stderr ''WARNING: No outline contours found (no black region?)''] else [])
     @ (if detail_contours_filtered v = []
        then [Stderr ''WARNING: No detail contours found (white inside outline).''] else [])"

text \<open>
  \<open>main\<close>, from the result of \<open>cv2.imread\<close> (\<open>None\<close> when the file cannot be read) to the
  events of the run and its outcome: \<open>Inr ()\<close> when \<open>main\<close> returns, \<open>Inl e\<close> when the
  exception \<open>e\<close> leaves it. The first call of \<open>cv2.threshold\<close>, at line 276, raises before
  anything is printed or written when the threshold does not convert.
\<close>

definition main :: "lib \<Rightarrow> args \<Rightarrow> image option \<Rightarrow> event list \<times> (py_error + unit)" where
  "main L a loaded =
     (case loaded of
        None \<Rightarrow>
          ([Stderr (''ERROR: Unable to read image '' @ [CHR 0x27] @ input_arg a @ [CHR 0x27])],
           Inl (SystemExit 1))
      | Some img_gray \<Rightarrow>
          if double_overflow (threshold_arg a) then ([], Inl ArgumentError)
          else
            (let h = height img_gray; w = width img_gray;
                 v = pipeline L a img_gray;
                 evs = warning_events v @ debug_events a v @ serialize_events L a w h v;
                 base = splitext_base L (output_arg a)
             in case bbox_from_polys (map to_poly (outline_contours_filtered v)) of
                  Inl e \<Rightarrow> (evs, Inl e)
                | Inr (mnx, mny, mxx, mxy) \<Rightarrow>
                    (evs @ [WriteMeta (base @ ''_meta.scad'') (pf_sub mxx mnx) (pf_sub mxy mny),
                            Stdout (''Wrote:  '' @ base @ ''_meta.scad'')],
                     Inr ())))"

section \<open>An instance of the library on rectangles\<close>

text \<open>
  An instance of the interface for evaluating runs on concrete images. It traces the
  foreground of a mask as one contour, the corners of its bounding rectangle in OpenCV's
  order (top left, bottom left, bottom right, top right), and no contour when there is no
  foreground; the area is the shoelace formula and the perimeter the sum of the side
  lengths along the axes; the simplifier returns the first point alone when every point
  lies within \<open>epsilon\<close> of it, and the contour unchanged otherwise; filling paints the
  bounding rectangle of each contour; the blur is the identity, the base of a path
  stops at its first dot, and a threshold outside the 32-bit range floors to \<open>- 2 ^ 31\<close>. On the images used below, whose regions are bounded by
  axis-parallel rectangles, these are the values OpenCV computes, up to which corner of a
  collapsed contour is the one kept.
\<close>

definition fg_points :: "image \<Rightarrow> (int \<times> int) list" where
  "fg_points m = [(int c, int r). r \<leftarrow> [0..<length m], c \<leftarrow> [0..<length (m ! r)], m ! r ! c \<noteq> 0]"

definition rect_findContours :: "image \<Rightarrow> retr_mode \<Rightarrow> contour list" where
  "rect_findContours m mode =
     (case fg_points m of
        [] \<Rightarrow> []
      | p # ps \<Rightarrow>
          (let x0 = fold min (map fst ps) (fst p); x1 = fold max (map fst ps) (fst p);
               y0 = fold min (map snd ps) (snd p); y1 = fold max (map snd ps) (snd p)
           in [[(x0, y0), (x0, y1), (x1, y1), (x1, y0)]]))"

definition shoelace :: "contour \<Rightarrow> real" where
  "shoelace c =
     \<bar>real_of_int (sum_list (map2 (\<lambda>p q. fst p * snd q - fst q * snd p) c (rotate1 c)))\<bar> / 2"

definition side_lengths :: "contour \<Rightarrow> real" where
  "side_lengths c =
     real_of_int (sum_list (map2 (\<lambda>p q. \<bar>fst q - fst p\<bar> + \<bar>snd q - snd p\<bar>) c (rotate1 c)))"

definition rect_approxPolyDP :: "contour \<Rightarrow> real \<Rightarrow> contour" where
  "rect_approxPolyDP c eps =
     (case c of
        [] \<Rightarrow> []
      | p # ps \<Rightarrow>
          if list_all (\<lambda>q. real_of_int ((fst q - fst p)\<^sup>2 + (snd q - snd p)\<^sup>2) \<le> eps * eps) ps
          then [p] else c)"

definition rect_filled :: "contour list \<Rightarrow> nat \<Rightarrow> nat \<Rightarrow> bool" where
  "rect_filled cs r c =
     list_ex (\<lambda>cnt. list_ex (\<lambda>p. fst p \<le> int c) cnt \<and> list_ex (\<lambda>p. int c \<le> fst p) cnt \<and>
                    list_ex (\<lambda>p. snd p \<le> int r) cnt \<and> list_ex (\<lambda>p. int r \<le> snd p) cnt) cs"

definition cv_rect :: lib where
  "cv_rect =
     \<lparr>GaussianBlur = (\<lambda>img k. img), findContours = rect_findContours,
      contourArea = shoelace, arcLength = side_lengths, approxPolyDP = rect_approxPolyDP,
      filled = rect_filled, splitext_base = takeWhile (\<lambda>ch. ch \<noteq> CHR ''.''),
      float_to_int_overflow = (\<lambda>t. - (2 ^ 31))\<rparr>"

text \<open>The defaults of \<open>parse_args\<close>, and the arguments used in the examples.\<close>

definition default_args :: args where
  "default_args =
     \<lparr>input_arg = ''input.png'', output_arg = ''output.svg'', threshold_arg = 180,
      invert = False, blur = 3, outline_offset = 5, simplify = 0.01, min_area = 50,
      debug = False\<rparr>"

definition example_args :: args where
  "example_args = default_args\<lparr>outline_offset := 0\<rparr>"

text \<open>A black square of 5 by 5 pixels with a white square of 3 by 3 pixels inside, and
  an all-white image.\<close>

definition ring_image :: image where
  "ring_image =
     [[0, 0, 0, 0, 0],
      [0, 255, 255, 255, 0],
      [0, 255, 255, 255, 0],
      [0, 255, 255, 255, 0],
      [0, 0, 0, 0, 0]]"

definition white_image :: image where
  "white_image = [[255, 255], [255, 255]]"

text \<open>Three traced squares, of areas 1, 4 and 4, in the order the tracer returns them.\<close>

definition three_squares :: "contour list" where
  "three_squares =
     [[(0, 0), (0, 1), (1, 1), (1, 0)],
      [(0, 0), (0, 2), (2, 2), (2, 0)],
      [(3, 3), (3, 5), (5, 5), (5, 3)]]"

section \<open>Properties of the bounding-box reducer\<close>

lemma py_min_shift: "py_min (pf_add a d) (Fin (x + d)) = pf_add (py_min a (Fin x)) d"
  by (cases a) (simp_all add: py_min_def)

lemma py_max_shift: "py_max (pf_add a d) (Fin (x + d)) = pf_add (py_max a (Fin x)) d"
  by (cases a) (simp_all add: py_max_def)

lemma fold_min_shift: "fold min (map (\<lambda>v. v + d) r) (x + d) = fold min r x + (d::real)"
proof (induction r arbitrary: x)
  case Nil
  show ?case by simp
next
  case (Cons a r)
  have "min (a + d) (x + d) = min a x + d" by (simp add: min_def)
  then show ?case by (simp add: Cons.IH)
qed

lemma fold_max_shift: "fold max (map (\<lambda>v. v + d) r) (x + d) = fold max r x + (d::real)"
proof (induction r arbitrary: x)
  case Nil
  show ?case by simp
next
  case (Cons a r)
  have "max (a + d) (x + d) = max a x + d" by (simp add: max_def)
  then show ?case by (simp add: Cons.IH)
qed

lemma np_min_shift: "np_min (map (\<lambda>v. v + d) xs) = map_sum id (\<lambda>v. v + d) (np_min xs)"
  by (cases xs) (simp_all add: np_min_def fold_min_shift)

lemma np_max_shift: "np_max (map (\<lambda>v. v + d) xs) = map_sum id (\<lambda>v. v + d) (np_max xs)"
  by (cases xs) (simp_all add: np_max_def fold_max_shift)

lemma map_fst_shift: "map fst (map (shift_pt dx dy) ps) = map (\<lambda>v. v + dx) (map fst ps)"
  by (simp add: shift_pt_def comp_def)

lemma map_snd_shift: "map snd (map (shift_pt dx dy) ps) = map (\<lambda>v. v + dy) (map snd ps)"
  by (simp add: shift_pt_def comp_def)

lemma bbox_fast_shift:
  "bbox_fast (shift_acc dx dy a) (map (shift_pt dx dy) ps)
     = map_sum id (shift_acc dx dy) (bbox_fast a ps)"
  unfolding bbox_fast_def Let_def map_fst_shift map_snd_shift np_min_shift np_max_shift
  by (cases "np_min (map fst ps)"; cases "np_min (map snd ps)"; cases "np_max (map fst ps)";
      cases "np_max (map snd ps)")
     (simp_all add: shift_acc_def py_min_shift py_max_shift)

lemma bbox_fallback_shift:
  "bbox_fallback (shift_acc dx dy a) (map (shift_pt dx dy) ps)
     = shift_acc dx dy (bbox_fallback a ps)"
proof (induction ps arbitrary: a)
  case Nil
  show ?case by simp
next
  case (Cons p ps)
  obtain x y where p: "p = (x, y)" by (cases p)
  have "bbox_fallback (shift_acc dx dy a) (map (shift_pt dx dy) (p # ps))
      = bbox_fallback (shift_acc dx dy
           \<lparr>min_x = py_min (min_x a) (Fin x), min_y = py_min (min_y a) (Fin y),
            max_x = py_max (max_x a) (Fin x), max_y = py_max (max_y a) (Fin y),
            n_points = n_points a + 1\<rparr>) (map (shift_pt dx dy) ps)"
    by (simp add: p shift_pt_def shift_acc_def py_min_shift py_max_shift)
  then show ?case by (simp add: p Cons.IH)
qed

lemma shape_translate: "shape (translate_poly dx dy p) = shape p"
  by (cases p) simp_all

lemma points_translate: "points (translate_poly dx dy p) = map (shift_pt dx dy) (points p)"
  by (cases p) simp_all

lemma translate_None: "(translate_poly dx dy p = PyNone) = (p = PyNone)"
  by (cases p) simp_all

lemma bbox_poly_shift:
  "bbox_poly (shift_acc dx dy a) (translate_poly dx dy p)
     = map_sum id (shift_acc dx dy) (bbox_poly a p)"
  by (simp add: bbox_poly_def shape_translate points_translate translate_None
        bbox_fast_shift bbox_fallback_shift Let_def)

lemma bbox_loop_shift:
  "bbox_loop (shift_acc dx dy a) (map (translate_poly dx dy) ps)
     = map_sum id (shift_acc dx dy) (bbox_loop a ps)"
proof (induction ps arbitrary: a)
  case Nil
  show ?case by simp
next
  case (Cons p ps)
  show ?case
    by (cases "bbox_poly a p") (simp_all add: bbox_poly_shift Cons.IH)
qed

lemma shift_acc_init: "shift_acc dx dy bbox_init = bbox_init"
  by (simp add: shift_acc_def bbox_init_def)

text \<open>
  Claim C8. The bounding box is translation-equivariant: adding \<open>(dx, dy)\<close> to every
  point of every polygon adds \<open>dx\<close> to \<open>min_x\<close> and \<open>max_x\<close> and \<open>dy\<close> to \<open>min_y\<close> and
  \<open>max_y\<close> of the box returned, exactly; and where the call on the original polygons
  raises, the call on the translated ones raises the same error.
\<close>

theorem bbox_translation_equivariant:
  "bbox_from_polys (translate dx dy polys) = map_sum id (shift_box dx dy) (bbox_from_polys polys)"
proof -
  have "bbox_loop bbox_init (map (translate_poly dx dy) polys)
      = map_sum id (shift_acc dx dy) (bbox_loop bbox_init polys)"
    using bbox_loop_shift [of dx dy bbox_init polys] by (simp add: shift_acc_init)
  then show ?thesis
    by (cases "bbox_loop bbox_init polys")
       (simp_all add: bbox_from_polys_def translate_def shift_acc_def)
qed

text \<open>The equivariance at two polygons with three points and the offset \<open>(10, 20)\<close>.\<close>

theorem bbox_translation_equivariant_witness:
  "bbox_from_polys [NdArray3 [(1, 2), (3, 5)], PyList [(0, 7)]] = Inr (Fin 0, Fin 2, Fin 3, Fin 7)
   \<and> bbox_from_polys (translate 10 20 [NdArray3 [(1, 2), (3, 5)], PyList [(0, 7)]])
       = Inr (Fin 10, Fin 22, Fin 13, Fin 27)"
  using bbox_translation_equivariant [of 10 20 "[NdArray3 [(1, 2), (3, 5)], PyList [(0, 7)]]"]
  by (simp add: bbox_from_polys_def bbox_init_def bbox_poly_def bbox_fast_def np_min_def np_max_def
       py_min_def py_max_def)

text \<open>
  When no polygon is a numpy array without points, the reducer raises exactly when there
  is no point at all, and returns the extrema of all points otherwise.
\<close>

lemma py_min_Fin: "py_min (Fin m) (Fin x) = Fin (min m x)"
  by (simp add: py_min_def min_def)

lemma py_max_Fin: "py_max (Fin m) (Fin x) = Fin (max m x)"
  by (simp add: py_max_def max_def)

lemma py_min_PosInf: "py_min PosInf (Fin x) = Fin x"
  by (simp add: py_min_def)

lemma py_max_NegInf: "py_max NegInf (Fin x) = Fin x"
  by (simp add: py_max_def)

lemma acc_of_step:
  "\<lparr>min_x = py_min (min_x (acc_of seen)) (Fin x), min_y = py_min (min_y (acc_of seen)) (Fin y),
    max_x = py_max (max_x (acc_of seen)) (Fin x), max_y = py_max (max_y (acc_of seen)) (Fin y),
    n_points = Suc (n_points (acc_of seen))\<rparr> = acc_of (seen @ [(x, y)])"
proof (cases "seen = []")
  case True
  then show ?thesis
    by (simp add: acc_of_def bbox_init_def py_min_PosInf py_max_NegInf)
next
  case False
  then show ?thesis
    by (simp add: acc_of_def py_min_Fin py_max_Fin Min_insert Max_insert min.commute max.commute)
qed

lemma bbox_fallback_acc: "bbox_fallback (acc_of seen) ps = acc_of (seen @ ps)"
proof (induction ps arbitrary: seen)
  case Nil
  show ?case by simp
next
  case (Cons p ps)
  obtain x y where p: "p = (x, y)" by (cases p)
  show ?case
    using Cons.IH [of "seen @ [(x, y)]"] by (simp add: p acc_of_step)
qed

lemma fold_min_Min: "fold min r (x::real) = Min (set (x # r))"
  by (rule Min.set_eq_fold [symmetric])

lemma fold_max_Max: "fold max r (x::real) = Max (set (x # r))"
  by (rule Max.set_eq_fold [symmetric])

lemma bbox_fast_acc:
  assumes "ps \<noteq> []"
  shows "bbox_fast (acc_of seen) ps = Inr (acc_of (seen @ ps))"
proof -
  obtain p r where ps: "ps = p # r" using assms by (cases ps) auto
  have fin: "finite (set (map fst seen))" "finite (set (map snd seen))" by simp_all
  show ?thesis
  proof (cases "seen = []")
    case True
    then show ?thesis
      by (simp add: bbox_fast_def np_min_def np_max_def ps acc_of_def bbox_init_def
            py_min_PosInf py_max_NegInf fold_min_Min fold_max_Max)
  next
    case False
    have mn: "min (Min (fst ` set seen)) (Min (insert a (f ` set r))) = Min (insert a (fst ` set seen \<union> f ` set r))"
      for a :: real and f :: "point \<Rightarrow> real"
      using False by (subst Min_Un [symmetric]) (simp_all add: Un_commute insert_commute)
    have mn': "min (Min (snd ` set seen)) (Min (insert a (f ` set r))) = Min (insert a (snd ` set seen \<union> f ` set r))"
      for a :: real and f :: "point \<Rightarrow> real"
      using False by (subst Min_Un [symmetric]) (simp_all add: Un_commute insert_commute)
    have mx: "max (Max (fst ` set seen)) (Max (insert a (f ` set r))) = Max (insert a (fst ` set seen \<union> f ` set r))"
      for a :: real and f :: "point \<Rightarrow> real"
      using False by (subst Max_Un [symmetric]) (simp_all add: Un_commute insert_commute)
    have mx': "max (Max (snd ` set seen)) (Max (insert a (f ` set r))) = Max (insert a (snd ` set seen \<union> f ` set r))"
      for a :: real and f :: "point \<Rightarrow> real"
      using False by (subst Max_Un [symmetric]) (simp_all add: Un_commute insert_commute)
    show ?thesis
      using False
      by (simp add: bbox_fast_def np_min_def np_max_def ps acc_of_def
            py_min_Fin py_max_Fin fold_min_Min fold_max_Max mn mn' mx mx')
  qed
qed

lemma bbox_poly_acc:
  assumes "no_empty_array p"
  shows "bbox_poly (acc_of seen) p = Inr (acc_of (seen @ points p))"
proof (cases p)
  case PyNone
  then show ?thesis by (simp add: bbox_poly_def)
next
  case (PyList ps)
  then show ?thesis
    by (cases "ps = []") (simp_all add: bbox_poly_def bbox_fast_acc bbox_fallback_acc)
next
  case (NdArray3 ps)
  then show ?thesis
    using assms by (simp add: bbox_poly_def bbox_fast_acc no_empty_array_def)
next
  case (NdArray2 ps)
  then show ?thesis
    using assms by (simp add: bbox_poly_def bbox_fast_acc no_empty_array_def)
qed

lemma bbox_loop_acc:
  "list_all no_empty_array polys \<Longrightarrow>
   bbox_loop (acc_of seen) polys = Inr (acc_of (seen @ concat (map points polys)))"
proof (induction polys arbitrary: seen)
  case Nil
  show ?case by simp
next
  case (Cons p polys)
  then show ?case by (simp add: bbox_poly_acc)
qed

lemma total_points_concat: "total_points polys = length (concat (map points polys))"
  by (simp add: total_points_def length_concat comp_def)

lemma bbox_from_polys_without_empty_arrays:
  assumes "list_all no_empty_array polys"
  shows "bbox_from_polys polys =
     (if total_points polys = 0
      then Inl (ValueError ''bbox_from_polys: empty polygon/contour list'')
      else Inr (Fin (Min (set (map fst (concat (map points polys))))),
                Fin (Min (set (map snd (concat (map points polys))))),
                Fin (Max (set (map fst (concat (map points polys))))),
                Fin (Max (set (map snd (concat (map points polys)))))))"
proof -
  have "bbox_loop bbox_init polys = Inr (acc_of (concat (map points polys)))"
    using bbox_loop_acc [OF assms, of "[]"] by (simp add: acc_of_def)
  then show ?thesis
    unfolding total_points_concat
    by (simp add: bbox_from_polys_def acc_of_def bbox_init_def)
qed

text \<open>
  Claim C2. The claim is that \<open>bbox_from_polys\<close> raises exactly when the polygons hold no
  point at all, and returns the box of all points otherwise. The code does not: a numpy
  contour with no points takes the fast path, where the reduction \<open>xs.min()\<close> of the empty
  column raises, although another polygon holds a point. The fallback path, which an empty
  Python list takes, skips such a polygon, and on every other input the reducer does what
  the claim says.
\<close>

theorem bbox_empty_array_raises:
  "total_points [NdArray3 [], NdArray3 [(1, 2)]] = 1
   \<and> bbox_from_polys [NdArray3 [], NdArray3 [(1, 2)]]
       = Inl (ValueError ''zero-size array to reduction operation minimum which has no identity'')
   \<and> bbox_from_polys [PyList [], NdArray3 [(1, 2)]] = Inr (Fin 1, Fin 2, Fin 1, Fin 2)"
  by (simp add: total_points_def bbox_from_polys_def bbox_init_def bbox_poly_def bbox_fast_def
        np_min_def np_max_def py_min_def py_max_def)

section \<open>Properties of the masks\<close>

lemma threshold_px_binary: "threshold_px L ty t 255 v = 0 \<or> threshold_px L ty t 255 v = 255"
  by (cases ty) (simp_all add: threshold_px_def Let_def)

lemma is_mask_threshold: "is_mask (threshold L src t 255 ty)"
  by (simp add: is_mask_def threshold_def list_all_iff threshold_px_binary)

lemma fold_max_in: "fold max xs (a::pixel) \<in> insert a (set xs)"
  by (induction xs arbitrary: a) (auto simp: max_def)

lemma fold_min_in: "fold min xs (a::pixel) \<in> insert a (set xs)"
  by (induction xs arbitrary: a) (auto simp: min_def)

lemma pixel_at:
  "list_all (list_all P) m \<Longrightarrow> r < length m \<Longrightarrow> c < length (m ! r) \<Longrightarrow> P (m ! r ! c)"
  by (simp add: list_all_length)

lemma list_all_window:
  assumes "list_all (list_all P) src"
  shows "list_all P (window src kern r c)"
  unfolding window_def Let_def list_all_iff
  by (auto split: if_splits intro: pixel_at [OF assms])

lemma is_mask_dilate_once: "is_mask m \<Longrightarrow> is_mask (dilate_once kern m)"
proof -
  assume m: "is_mask m"
  have "fold max (window m kern r c) 0 = 0 \<or> fold max (window m kern r c) 0 = 255" for r c
    using fold_max_in [of "window m kern r c" 0] list_all_window [of "\<lambda>p. p = 0 \<or> p = 255" m kern r c] m
    by (auto simp: is_mask_def list_all_iff)
  then show ?thesis
    by (simp add: is_mask_def dilate_once_def list_all_iff)
qed

lemma is_mask_dilate: "is_mask m \<Longrightarrow> is_mask (dilate m kern n)"
  by (induction n arbitrary: m) (simp_all add: is_mask_dilate_once)

lemma all_background_dilate_once: "all_background m \<Longrightarrow> all_background (dilate_once kern m)"
proof -
  assume m: "all_background m"
  have "fold max (window m kern r c) 0 = 0" for r c
    using fold_max_in [of "window m kern r c" 0] list_all_window [of "\<lambda>p. p = 0" m kern r c] m
    by (auto simp: all_background_def list_all_iff)
  then show ?thesis
    by (simp add: all_background_def dilate_once_def list_all_iff)
qed

lemma all_background_dilate: "all_background m \<Longrightarrow> all_background (dilate m kern n)"
  by (induction n arbitrary: m) (simp_all add: all_background_dilate_once)

lemma is_mask_zeros: "is_mask (np_zeros h w)"
  by (simp add: is_mask_def np_zeros_def list_all_iff)

lemma all_background_zeros: "all_background (np_zeros h w)"
  by (simp add: all_background_def np_zeros_def list_all_iff)

lemma is_mask_drawContours:
  assumes "is_mask img"
  shows "is_mask (drawContours L img cs 255)"
proof -
  have "img ! r ! c = 0 \<or> img ! r ! c = 255" if "r < length img" "c < length (img ! r)" for r c
    using pixel_at [OF assms [unfolded is_mask_def] that] .
  then show ?thesis
    by (simp add: is_mask_def drawContours_def list_all_length)
qed

lemma and_binary:
  "(p = 0 \<or> p = 255) \<Longrightarrow> (q = 0 \<or> q = 255) \<Longrightarrow> (p AND q = 0 \<or> p AND q = (255::pixel))"
  by auto

lemma list_all_map2:
  assumes "list_all P xs" "list_all Q ys" "\<And>x y. P x \<Longrightarrow> Q y \<Longrightarrow> R (f x y)"
  shows "list_all R (map2 f xs ys)"
  using assms by (simp add: list_all_length)

lemma is_mask_bitwise_and:
  assumes "is_mask a" "is_mask b"
  shows "is_mask (bitwise_and a b)"
  unfolding is_mask_def bitwise_and_def
proof (rule list_all_map2 [OF assms [unfolded is_mask_def]])
  fix x y :: "pixel list"
  assume "list_all (\<lambda>p. p = 0 \<or> p = 255) x" "list_all (\<lambda>p. p = 0 \<or> p = 255) y"
  then show "list_all (\<lambda>p. p = 0 \<or> p = 255) (map2 (\<lambda>p q. p AND q) x y)"
    by (rule list_all_map2) (rule and_binary)
qed

lemma all_background_bitwise_and:
  assumes "all_background b"
  shows "all_background (bitwise_and a b)"
  unfolding all_background_def bitwise_and_def
proof (rule list_all_map2 [where P = "\<lambda>x. True", OF _ assms [unfolded all_background_def]])
  show "list_all (\<lambda>x. True) a" by (simp add: list_all_iff)
next
  fix x y :: "pixel list"
  assume "list_all (\<lambda>p. p = 0) y"
  then show "list_all (\<lambda>p. p = 0) (map2 (\<lambda>p q. p AND q) x y)"
    by (simp add: list_all_length)
qed

section \<open>Properties of the pipeline\<close>

lemma pipeline_thresholded:
  "shape_mask_thresholded (pipeline L a img) = threshold L img (threshold_arg a) 255 THRESH_BINARY_INV"
  by (simp add: pipeline_def Let_def)

lemma pipeline_shape_mask:
  "shape_mask (pipeline L a img) =
     (if outline_offset a > 0
      then dilate (shape_mask_thresholded (pipeline L a img))
             (np_ones (nat (max 1 (outline_offset a * 2 + 1))) (nat (max 1 (outline_offset a * 2 + 1)))) (Suc 0)
      else shape_mask_thresholded (pipeline L a img))"
  by (simp add: pipeline_def Let_def del: dilate.simps)

lemma pipeline_outline_contours:
  "outline_contours (pipeline L a img) = find_contours L (shape_mask (pipeline L a img)) RETR_EXTERNAL"
  by (simp add: pipeline_def Let_def)

lemma pipeline_outline_filtered:
  "outline_contours_filtered (pipeline L a img) =
     (case outline_contours (pipeline L a img) of
        [] \<Rightarrow> []
      | c # cs \<Rightarrow> [simplify_contour L (py_max_by (contourArea L) c cs) (simplify a)])"
  by (simp add: pipeline_def Let_def split: list.split)

lemma pipeline_silhouette:
  "silhouette_mask (pipeline L a img) =
     (case outline_contours (pipeline L a img) of
        [] \<Rightarrow> np_zeros (height img) (width img)
      | c # cs \<Rightarrow> drawContours L (np_zeros (height img) (width img))
                   (outline_contours_filtered (pipeline L a img)) 255)"
  by (simp add: pipeline_def Let_def split: list.split)

lemma pipeline_white_mask:
  "white_mask (pipeline L a img) = threshold L img (threshold_arg a) 255 THRESH_BINARY"
  by (simp add: pipeline_def Let_def)

lemma pipeline_white_inside:
  "white_inside (pipeline L a img) =
     bitwise_and (white_mask (pipeline L a img)) (silhouette_mask (pipeline L a img))"
  by (simp add: pipeline_def Let_def)

lemma pipeline_eroded:
  "white_inside_eroded (pipeline L a img) = erode (white_inside (pipeline L a img)) (np_ones 3 3) 0"
  by (simp add: pipeline_def Let_def)

lemma pipeline_detail_contours:
  "detail_contours (pipeline L a img) = find_contours L (white_inside_eroded (pipeline L a img)) RETR_TREE"
  by (simp add: pipeline_def Let_def)

lemma pipeline_detail_filtered:
  "detail_contours_filtered (pipeline L a img) =
     [simplify_contour L cnt 0.002. cnt \<leftarrow> detail_contours (pipeline L a img), \<not> contourArea L cnt < 2]"
  by (simp add: pipeline_def Let_def)

lemma cvFloor_in_range: "- (2 ^ 31) \<le> t \<Longrightarrow> t < 2 ^ 31 \<Longrightarrow> cvFloor L t = t"
  by (simp add: cvFloor_def)

lemma not_overflow_in_range: "- (2 ^ 31) \<le> t \<Longrightarrow> t < 2 ^ 31 \<Longrightarrow> \<not> double_overflow t"
proof -
  assume lo: "- (2 ^ 31) \<le> t" and hi: "t < 2 ^ 31"
  have "(2::int) ^ 31 < 2 ^ 1024 - 2 ^ 970" by simp
  moreover have "\<bar>t\<bar> \<le> 2 ^ 31" using lo hi by simp
  ultimately show ?thesis by (simp add: double_overflow_def)
qed

lemma threshold_inv_in_range:
  assumes "- (2 ^ 31) \<le> t" and "t < 2 ^ 31"
  shows "threshold L img t 255 THRESH_BINARY_INV
           = map (map (\<lambda>v. if uint v \<le> t then 255 else 0)) img"
  by (simp add: threshold_def threshold_px_def cvFloor_in_range [OF assms]
        not_less [symmetric] cong: if_cong)

lemma not_pixel: "NOT (255 :: pixel) = 0" "NOT (0 :: pixel) = 255"
  by simp_all

text \<open>
  Claim C4. The claim is that a pixel becomes foreground exactly when its value is
  strictly below the threshold, so that a pixel equal to the threshold is background. The
  inverted binary threshold of OpenCV maps to 0 the pixels strictly above the threshold
  and to 255 all others: a pixel of value 180 at threshold 180 is foreground, in \<open>main\<close>
  and in \<open>binarize\<close>.
\<close>

theorem threshold_equal_is_foreground:
  "shape_mask_thresholded (pipeline cv_rect default_args [[180]]) = [[255]]
   \<and> binarize cv_rect [[180]] 180 0 False = Inr [[255]]"
  by (simp add: pipeline_thresholded default_args_def binarize_def threshold_def threshold_px_def
        cvFloor_def double_overflow_def)

text \<open>
  Claim C4, as amended. For every pixel value \<open>v\<close> and every threshold \<open>t\<close> that fits a
  32-bit signed integer (every \<open>t\<close> from 0 to 255 in particular), binarization maps \<open>v\<close> to
  foreground (255) exactly when \<open>v \<le> t\<close> and to background (0) otherwise: a pixel whose
  value equals the threshold becomes foreground. This holds for the shape mask \<open>main\<close>
  thresholds and for \<open>binarize\<close>, where the comparison is made on the image after the
  optional blur and the invert flag exchanges the two values.
\<close>

theorem binarization_foreground_iff_not_lighter:
  assumes "- (2 ^ 31) \<le> t" and "t < 2 ^ 31"
  shows "shape_mask_thresholded (pipeline L (a\<lparr>threshold_arg := t\<rparr>) img)
           = map (map (\<lambda>v. if uint v \<le> t then 255 else 0)) img
       \<and> binarize L img t blur_k flag
           = Inr (map (map (\<lambda>v. if (uint v \<le> t) \<noteq> flag then 255 else 0))
                   (if 0 < blur_k \<and> blur_k mod 2 = 1 then GaussianBlur L img (nat blur_k)
                    else img))"
proof -
  have m: "shape_mask_thresholded (pipeline L (a\<lparr>threshold_arg := t\<rparr>) img)
             = map (map (\<lambda>v. if uint v \<le> t then 255 else 0)) img"
    by (simp add: pipeline_thresholded threshold_inv_in_range [OF assms])
  have n: "bitwise_not (map (map (\<lambda>v. if uint v \<le> t then 255 else 0)) src)
             = map (map (\<lambda>v. if uint v \<le> t then 0 else 255)) src" for src
    by (simp add: bitwise_not_def comp_def not_pixel cong: if_cong)
  have b: "binarize L img t blur_k flag
             = Inr (map (map (\<lambda>v. if (uint v \<le> t) \<noteq> flag then 255 else 0))
                     (if 0 < blur_k \<and> blur_k mod 2 = 1 then GaussianBlur L img (nat blur_k)
                      else img))"
  proof (cases flag)
    case True
    then show ?thesis
      using not_overflow_in_range [OF assms]
      by (auto simp: binarize_def Let_def threshold_inv_in_range [OF assms] n)
  next
    case False
    then show ?thesis
      using not_overflow_in_range [OF assms]
      by (auto simp: binarize_def Let_def threshold_inv_in_range [OF assms])
  qed
  show ?thesis using m b by simp
qed

text \<open>Three pixels around the threshold 180, in \<open>main\<close> and in \<open>binarize\<close> with
  inversion.\<close>

theorem binarization_foreground_iff_not_lighter_witness:
  "- (2 ^ 31) \<le> (180::int) \<and> (180::int) < 2 ^ 31
   \<and> shape_mask_thresholded (pipeline cv_rect (default_args\<lparr>threshold_arg := 180\<rparr>) [[179, 180, 181]])
       = [[255, 255, 0]]
   \<and> binarize cv_rect [[179, 180, 181]] 180 0 True = Inr [[0, 0, 255]]"
proof -
  have h1: "- (2 ^ 31) \<le> (180::int)" by simp
  have h2: "(180::int) < 2 ^ 31" by simp
  show ?thesis
    using binarization_foreground_iff_not_lighter
            [OF h1 h2, of cv_rect default_args "[[179, 180, 181]]" 0 True]
    by simp
qed

text \<open>
  Claim C5. The claim is that \<open>--blur\<close> and \<open>--min-area\<close> influence the run. \<open>main\<close>
  never reads them: it thresholds the image itself instead of calling \<open>binarize\<close>, and
  it filters detail contours by the constant 2.0. Two runs that differ only in these two
  arguments produce the same events and the same outcome.
\<close>

theorem main_ignores_blur_and_min_area:
  "main L (a\<lparr>blur := b, min_area := m\<rparr>) loaded = main L a loaded"
proof -
  have p: "pipeline L (a\<lparr>blur := b, min_area := m\<rparr>) img = pipeline L a img" for img
    by (simp add: pipeline_def Let_def cong: list.case_cong)
  have d: "debug_events (a\<lparr>blur := b, min_area := m\<rparr>) v = debug_events a v" for v
    by (simp add: debug_events_def)
  have s: "serialize_events L (a\<lparr>blur := b, min_area := m\<rparr>) w h v = serialize_events L a w h v"
    for w h v
    by (simp add: serialize_events_def)
  show ?thesis
    by (cases loaded) (simp_all add: main_def p d s)
qed

text \<open>
  Claim C6. Erosion with zero iterations is the identity, for every mask and every
  structuring element; the eroded detail mask of \<open>main\<close> is therefore the intersection
  mask itself.
\<close>

theorem erode_zero_iterations_identity:
  "erode m kern 0 = m \<and> white_inside_eroded (pipeline L a img) = white_inside (pipeline L a img)"
  by (simp add: pipeline_eroded)

lemma is_mask_silhouette: "is_mask (silhouette_mask (pipeline L a img))"
  by (cases "outline_contours (pipeline L a img)")
     (simp_all add: pipeline_silhouette is_mask_zeros is_mask_drawContours)

text \<open>
  Claim C7. For every image and every threshold, each mask of the pipeline holds only the
  values 0 and 255: the thresholded shape mask, its dilation (by any structuring element,
  any number of times, and so the shape mask \<open>main\<close> traces), the filled silhouette mask,
  the intersection with the white mask, and the eroded detail mask.
\<close>

theorem pipeline_masks_binary:
  "is_mask (shape_mask_thresholded (pipeline L a img))
   \<and> is_mask (dilate (shape_mask_thresholded (pipeline L a img)) kern n)
   \<and> is_mask (shape_mask (pipeline L a img))
   \<and> is_mask (silhouette_mask (pipeline L a img))
   \<and> is_mask (white_inside (pipeline L a img))
   \<and> is_mask (white_inside_eroded (pipeline L a img))"
proof -
  have t: "is_mask (shape_mask_thresholded (pipeline L a img))"
    by (simp add: pipeline_thresholded is_mask_threshold)
  have d: "is_mask (dilate (shape_mask_thresholded (pipeline L a img)) k n)" for k n
    using t by (rule is_mask_dilate)
  have s: "is_mask (shape_mask (pipeline L a img))"
    using t d by (simp add: pipeline_shape_mask del: dilate.simps)
  have w: "is_mask (white_inside (pipeline L a img))"
    by (simp add: pipeline_white_inside pipeline_white_mask is_mask_bitwise_and
          is_mask_threshold is_mask_silhouette)
  have e: "is_mask (white_inside_eroded (pipeline L a img))"
    using w by (simp add: pipeline_eroded)
  show ?thesis using t d s w e is_mask_silhouette by blast
qed

section \<open>Selection of the outline\<close>

lemma py_max_by_snoc:
  "py_max_by key b (cs @ [c]) = (if key (py_max_by key b cs) < key c then c else py_max_by key b cs)"
  by (induction cs arbitrary: b) simp_all

lemma first_max_snoc:
  fixes key :: "'a \<Rightarrow> real"
  assumes i: "i < length xs"
    and mx: "\<forall>j < length xs. key (xs ! j) \<le> key (xs ! i)"
    and fst: "\<forall>j < i. key (xs ! j) < key (xs ! i)"
  shows "\<exists>k < length (xs @ [c]).
      (if key (xs ! i) < key c then c else xs ! i) = (xs @ [c]) ! k
    \<and> (\<forall>j < length (xs @ [c]). key ((xs @ [c]) ! j) \<le> key ((xs @ [c]) ! k))
    \<and> (\<forall>j < k. key ((xs @ [c]) ! j) < key ((xs @ [c]) ! k))"
proof (cases "key (xs ! i) < key c")
  case True
  have "\<forall>j < length xs. key (xs ! j) < key c"
    using mx True by fastforce
  then have "(\<forall>j < length (xs @ [c]). key ((xs @ [c]) ! j) \<le> key ((xs @ [c]) ! length xs))
      \<and> (\<forall>j < length xs. key ((xs @ [c]) ! j) < key ((xs @ [c]) ! length xs))"
    by (auto simp: nth_append less_Suc_eq less_imp_le)
  then show ?thesis
    using True by (intro exI [of _ "length xs"]) simp
next
  case False
  have "\<forall>j < length (xs @ [c]). key ((xs @ [c]) ! j) \<le> key ((xs @ [c]) ! i)"
    using mx False i by (auto simp: nth_append less_Suc_eq)
  moreover have "\<forall>j < i. key ((xs @ [c]) ! j) < key ((xs @ [c]) ! i)"
    using fst i by (auto simp: nth_append)
  ultimately show ?thesis
    using False i by (intro exI [of _ i]) (simp add: nth_append)
qed

lemma py_max_by_first_max:
  "\<exists>i < length (b # cs).
      py_max_by key b cs = (b # cs) ! i
    \<and> (\<forall>j < length (b # cs). key ((b # cs) ! j) \<le> key ((b # cs) ! i))
    \<and> (\<forall>j < i. key ((b # cs) ! j) < key ((b # cs) ! i))"
proof (induction cs rule: rev_induct)
  case Nil
  show ?case by simp
next
  case (snoc c cs)
  define xs where "xs = b # cs"
  from snoc obtain i where i: "i < length xs"
    and sel: "py_max_by key b cs = xs ! i"
    and mx: "\<forall>j < length xs. key (xs ! j) \<le> key (xs ! i)"
    and fst: "\<forall>j < i. key (xs ! j) < key (xs ! i)"
    unfolding xs_def by blast
  have step: "py_max_by key b (cs @ [c]) = (if key (xs ! i) < key c then c else xs ! i)"
    by (simp add: py_max_by_snoc sel)
  have app: "b # (cs @ [c]) = xs @ [c]" by (simp add: xs_def)
  show ?case
    unfolding app step by (rule first_max_snoc [OF i mx fst])
qed

text \<open>
  Claim C1. When the tracer returns a non-empty sequence of external contours, the outline
  layer holds exactly one polygon: the simplified contour at some index \<open>i\<close> of the
  sequence whose area is maximal, every contour before \<open>i\<close> having a strictly smaller
  area (ties go to the first encountered). The silhouette mask is filled from that one
  polygon alone, so no other contour reaches the outline layer or the mask.
\<close>

theorem outline_is_largest_contour:
  assumes "outline_contours (pipeline L a img) = cs" and "cs \<noteq> []"
  shows "\<exists>i < length cs.
           outline_contours_filtered (pipeline L a img) = [simplify_contour L (cs ! i) (simplify a)]
         \<and> silhouette_mask (pipeline L a img)
             = drawContours L (np_zeros (height img) (width img))
                 [simplify_contour L (cs ! i) (simplify a)] 255
         \<and> (\<forall>j < length cs. contourArea L (cs ! j) \<le> contourArea L (cs ! i))
         \<and> (\<forall>j < i. contourArea L (cs ! j) < contourArea L (cs ! i))"
proof -
  from assms(2) obtain b r where cs: "cs = b # r" by (cases cs) auto
  obtain i where i: "i < length (b # r)"
    and sel: "py_max_by (contourArea L) b r = (b # r) ! i"
    and mx: "\<forall>j < length (b # r). contourArea L ((b # r) ! j) \<le> contourArea L ((b # r) ! i)"
    and fst: "\<forall>j < i. contourArea L ((b # r) ! j) < contourArea L ((b # r) ! i)"
    using py_max_by_first_max [of b r "contourArea L"] by blast
  have f: "outline_contours_filtered (pipeline L a img) = [simplify_contour L (cs ! i) (simplify a)]"
    using assms(1) sel by (simp add: pipeline_outline_filtered cs)
  have s: "silhouette_mask (pipeline L a img)
             = drawContours L (np_zeros (height img) (width img))
                 [simplify_contour L (cs ! i) (simplify a)] 255"
    using assms(1) f by (simp add: pipeline_silhouette cs)
  show ?thesis
    using i f s mx fst unfolding cs by blast
qed

text \<open>
  The selection on three squares: the second and the third tie at area 4, and the second
  is taken.
\<close>

theorem outline_is_largest_contour_witness:
  "outline_contours (pipeline (cv_rect\<lparr>findContours := \<lambda>m mode. three_squares\<rparr>) example_args ring_image)
     = three_squares
   \<and> three_squares \<noteq> []
   \<and> outline_contours_filtered
       (pipeline (cv_rect\<lparr>findContours := \<lambda>m mode. three_squares\<rparr>) example_args ring_image)
     = [[(0, 0), (0, 2), (2, 2), (2, 0)]]"
proof -
  let ?L = "cv_rect\<lparr>findContours := \<lambda>m mode. three_squares\<rparr>"
  have h1: "outline_contours (pipeline ?L example_args ring_image) = three_squares"
    by (simp add: pipeline_outline_contours find_contours_def)
  have h2: "three_squares \<noteq> []" by (simp add: three_squares_def)
  have v: "outline_contours_filtered (pipeline ?L example_args ring_image) = [[(0, 0), (0, 2), (2, 2), (2, 0)]]"
    by (simp add: pipeline_outline_filtered h1)
       (simp add: three_squares_def cv_rect_def shoelace_def simplify_contour_def
          side_lengths_def rect_approxPolyDP_def example_args_def default_args_def)
  show ?thesis
    using outline_is_largest_contour [OF h1 h2] h1 h2 v by simp
qed

section \<open>Runs without foreground\<close>

lemma fg_points_background: "all_background m \<Longrightarrow> fg_points m = []"
proof -
  assume bg: "all_background m"
  have "m ! r ! c = 0" if "r < length m" "c < length (m ! r)" for r c
    using pixel_at [OF bg [unfolded all_background_def] that] .
  then show ?thesis
    by (simp add: fg_points_def)
qed

lemma rect_findContours_background: "all_background m \<Longrightarrow> rect_findContours m mode = []"
  by (simp add: rect_findContours_def fg_points_background)

lemma bbox_from_polys_Nil:
  "bbox_from_polys [] = Inl (ValueError ''bbox_from_polys: empty polygon/contour list'')"
  by (simp add: bbox_from_polys_def bbox_init_def)

lemma all_background_shape_mask:
  "all_background (shape_mask_thresholded (pipeline L a img)) \<Longrightarrow> all_background (shape_mask (pipeline L a img))"
  by (simp add: pipeline_shape_mask all_background_dilate del: dilate.simps)

text \<open>
  Claim C3. The claim is that a run on an image without foreground completes without an
  unhandled exception. On an all-white image at the default arguments the thresholded
  mask has no foreground, and the run ends with the \<open>ValueError\<close> that
  \<open>bbox_from_polys\<close> raises on the empty outline, which \<open>main\<close> does not catch.
\<close>

theorem white_image_run_aborts:
  "all_background (shape_mask_thresholded (pipeline cv_rect default_args white_image))
   \<and> snd (main cv_rect default_args (Some white_image))
       = Inl (ValueError ''bbox_from_polys: empty polygon/contour list'')"
  by code_simp

text \<open>
  Claim C3, as amended. When binarization produces no foreground pixels, and the tracer
  returns no contour for a mask without foreground, the run writes the outline warning
  (and the detail warning) to the diagnostic stream, has an empty outline contour set,
  and saves the three drawings with empty layers; it then aborts at the bounding-box step
  with the \<open>ValueError\<close> of \<open>bbox_from_polys\<close> on an empty contour list, before any
  metadata file is written. (Where the threshold is too large for \<open>cv2.threshold\<close> to
  accept, no binarization is produced: the run aborts there, before any output.)
\<close>

theorem empty_foreground_run:
  assumes bg: "all_background (shape_mask_thresholded (pipeline L a img))"
    and tracer: "\<And>m mode. all_background m \<Longrightarrow> findContours L m mode = []"
  shows "outline_contours (pipeline L a img) = []
       \<and> outline_contours_filtered (pipeline L a img) = []
       \<and> fst (main L a (Some img))
           = (if double_overflow (threshold_arg a) then []
              else
                [Stderr ''WARNING: No outline contours found (no black region?)'',
                 Stderr ''WARNING: No detail contours found (white inside outline).'']
                @ debug_events a (pipeline L a img)
                @ [Save (create_svg (width img) (height img) [] [] (output_arg a)),
                   Stdout (''Saved layered SVG to: '' @ output_arg a),
                   Save (write_svg_single_group (width img) (height img) []
                           (splitext_base L (output_arg a) @ ''_outline.svg'')),
                   Save (write_svg_detail_evenodd (width img) (height img) []
                           (splitext_base L (output_arg a) @ ''_detail.svg'')),
                   Stdout (''Wrote: '' @ splitext_base L (output_arg a) @ ''_outline.svg and ''
                           @ splitext_base L (output_arg a) @ ''_detail.svg'')])
       \<and> snd (main L a (Some img))
           = (if double_overflow (threshold_arg a) then Inl ArgumentError
              else Inl (ValueError ''bbox_from_polys: empty polygon/contour list''))"
proof -
  let ?v = "pipeline L a img"
  have oc: "outline_contours ?v = []"
    using tracer [OF all_background_shape_mask [OF bg]]
    by (simp add: pipeline_outline_contours find_contours_def)
  have ocf: "outline_contours_filtered ?v = []"
    by (simp add: pipeline_outline_filtered oc)
  have sil: "all_background (silhouette_mask ?v)"
    by (simp add: pipeline_silhouette oc all_background_zeros)
  have "all_background (white_inside_eroded ?v)"
    using sil by (simp add: pipeline_eroded pipeline_white_inside all_background_bitwise_and)
  then have dc: "detail_contours ?v = []"
    using tracer by (simp add: pipeline_detail_contours find_contours_def)
  have dcf: "detail_contours_filtered ?v = []"
    by (simp add: pipeline_detail_filtered dc)
  show ?thesis
    by (simp add: oc ocf main_def Let_def warning_events_def serialize_events_def dcf
          bbox_from_polys_Nil)
qed

text \<open>
  The run on the all-white image at the default arguments, with the rectangle instance
  of the library.
\<close>

theorem empty_foreground_run_witness:
  "all_background (shape_mask_thresholded (pipeline cv_rect default_args white_image))
   \<and> outline_contours_filtered (pipeline cv_rect default_args white_image) = []
   \<and> snd (main cv_rect default_args (Some white_image))
       = Inl (ValueError ''bbox_from_polys: empty polygon/contour list'')"
proof -
  have h1: "all_background (shape_mask_thresholded (pipeline cv_rect default_args white_image))"
    by (simp add: pipeline_thresholded default_args_def white_image_def threshold_def
          threshold_px_def cvFloor_def all_background_def)
  have h2: "all_background m \<Longrightarrow> findContours cv_rect m mode = []" for m mode
    by (simp add: cv_rect_def rect_findContours_background)
  show ?thesis
    using empty_foreground_run [of cv_rect default_args white_image, OF h1 h2] h1
    by (simp add: default_args_def double_overflow_def)
qed

section \<open>The standalone detail document\<close>

lemma join_sp_Cons_nonempty: "s \<noteq> [] \<Longrightarrow> join_sp (s # r) \<noteq> []"
  by (cases r) simp_all

lemma contour_to_path_d_empty: "(contour_to_path_d c = []) = (c = [])"
proof (cases c)
  case Nil
  then show ?thesis by (simp add: contour_to_path_d_def)
next
  case (Cons p r)
  obtain x y where "p = (x, y)" by (cases p)
  then show ?thesis
    using Cons by (simp add: contour_to_path_d_def join_sp_Cons_nonempty)
qed

lemma nonempty_path_ds:
  "filter (\<lambda>d. d \<noteq> []) (map contour_to_path_d cs) = map contour_to_path_d (filter (\<lambda>c. c \<noteq> []) cs)"
  by (induction cs) (simp_all add: contour_to_path_d_empty)

lemma join_sp_empty: "list_all (\<lambda>s. s \<noteq> []) ds \<Longrightarrow> (join_sp ds = []) = (ds = [])"
  by (cases ds) (simp_all add: join_sp_Cons_nonempty)

lemma compound_path_empty:
  "(contours_to_compound_path_d cs = []) = list_all (\<lambda>c. c = []) cs"
proof -
  have "list_all (\<lambda>s. s \<noteq> []) (map contour_to_path_d (filter (\<lambda>c. c \<noteq> []) cs))"
    by (simp add: list_all_iff contour_to_path_d_empty)
  then have "(contours_to_compound_path_d cs = []) = (filter (\<lambda>c. c \<noteq> []) cs = [])"
    by (simp add: contours_to_compound_path_d_def nonempty_path_ds join_sp_empty)
  then show ?thesis
    by (simp add: filter_empty_conv list_all_iff)
qed

text \<open>
  Claim C9. The standalone detail document holds at most one path element. Its path data
  are the subpaths of the detail contours, one per contour that has a point, joined in
  the order of the input sequence; it is filled black, not stroked, with the even-odd
  fill rule. When no contour has a point, and in particular when the contour set is
  empty, no path element is emitted.
\<close>

theorem detail_document_compound_path:
  "elements (write_svg_detail_evenodd w h cs p) =
     (if list_all (\<lambda>c. c = []) cs then []
      else [Path \<lparr>path_d = join_sp (map contour_to_path_d (filter (\<lambda>c. c \<noteq> []) cs)),
                  fill = ''black'', stroke = ''none'', stroke_width = None,
                  fill_rule = Some ''evenodd''\<rparr>])
   \<and> elements (write_svg_detail_evenodd w h [] p) = []"
proof -
  have e: "contours_to_compound_path_d [] = []"
    by (simp add: contours_to_compound_path_d_def)
  show ?thesis
    using compound_path_empty [of cs]
    by (simp add: write_svg_detail_evenodd_def Let_def e)
       (simp add: contours_to_compound_path_d_def nonempty_path_ds)
qed

text \<open>
  Two triangles with an empty contour between them.
\<close>

theorem detail_document_compound_path_witness:
  "elements (write_svg_detail_evenodd 5 5 [[(0, 0), (0, 4), (4, 4)], [], [(1, 1), (1, 2), (2, 1)]] ''d.svg'')
     = [Path \<lparr>path_d = ''M 0.00,0.00 L 0.00,4.00 L 4.00,4.00 Z M 1.00,1.00 L 1.00,2.00 L 2.00,1.00 Z'',
               fill = ''black'', stroke = ''none'', stroke_width = None,
               fill_rule = Some ''evenodd''\<rparr>]"
  using detail_document_compound_path [of 5 5 "[[(0, 0), (0, 4), (4, 4)], [], [(1, 1), (1, 2), (2, 1)]]" "''d.svg''"]
  by (simp add: contour_to_path_d_def fmt2_def digit_char_def)

section \<open>Simplification and the detail layer\<close>

text \<open>
  Claim C10. The claim is that two runs differing only in \<open>--simplify\<close> produce the
  same detail layer. The silhouette mask is filled from the simplified outline, and the
  detail contours are traced inside that mask: on the black square with a white square
  inside, the factor 0.01 keeps the four corners of the outline and the detail layer holds
  the white square, while the factor 1 (a tolerance of 16 pixels, more than the diameter of
  the outline) collapses the outline to one corner point and the detail layer is empty.
\<close>

theorem simplify_changes_detail_layer:
  "detail_contours_filtered (pipeline cv_rect example_args ring_image) = [[(1, 1), (1, 3), (3, 3), (3, 1)]]
   \<and> detail_contours_filtered (pipeline cv_rect (example_args\<lparr>simplify := 1\<rparr>) ring_image) = []"
  by code_simp

text \<open>
  Claim C10, as amended. Detail contours are always simplified with the fixed factor
  0.002, whatever \<open>--simplify\<close> is; the user's factor is applied to the one outline
  polygon, after the contours are traced and the largest is selected, and it reaches the
  detail layer only through the silhouette mask filled from the simplified outline: two
  runs differing only in \<open>--simplify\<close> whose silhouette masks are equal produce the same
  detail layer.
\<close>

theorem detail_layer_simplify_through_silhouette:
  "detail_contours_filtered (pipeline L a img)
     = [simplify_contour L cnt 0.002. cnt \<leftarrow> detail_contours (pipeline L a img),
          \<not> contourArea L cnt < 2]
   \<and> outline_contours (pipeline L (a\<lparr>simplify := s\<rparr>) img) = outline_contours (pipeline L a img)
   \<and> (silhouette_mask (pipeline L (a\<lparr>simplify := s\<rparr>) img) = silhouette_mask (pipeline L a img)
      \<longrightarrow> detail_contours_filtered (pipeline L (a\<lparr>simplify := s\<rparr>) img)
          = detail_contours_filtered (pipeline L a img))"
proof -
  have oc: "outline_contours (pipeline L (a\<lparr>simplify := s\<rparr>) img) = outline_contours (pipeline L a img)"
    by (simp add: pipeline_outline_contours pipeline_shape_mask pipeline_thresholded del: dilate.simps)
  have wi: "white_inside (pipeline L (a\<lparr>simplify := s\<rparr>) img) = white_inside (pipeline L a img)"
    if "silhouette_mask (pipeline L (a\<lparr>simplify := s\<rparr>) img) = silhouette_mask (pipeline L a img)"
    using that by (simp add: pipeline_white_inside pipeline_white_mask)
  have "detail_contours_filtered (pipeline L (a\<lparr>simplify := s\<rparr>) img)
          = detail_contours_filtered (pipeline L a img)"
    if "silhouette_mask (pipeline L (a\<lparr>simplify := s\<rparr>) img) = silhouette_mask (pipeline L a img)"
    using wi [OF that]
    by (simp add: pipeline_detail_filtered pipeline_detail_contours pipeline_eroded)
  then show ?thesis
    using oc by (simp add: pipeline_detail_filtered)
qed

text \<open>
  The factors 0.01 and 0.02 fill the same silhouette on the black square.
\<close>

theorem detail_layer_simplify_through_silhouette_witness:
  "silhouette_mask (pipeline cv_rect (example_args\<lparr>simplify := 0.02\<rparr>) ring_image)
     = silhouette_mask (pipeline cv_rect example_args ring_image)
   \<and> detail_contours_filtered (pipeline cv_rect (example_args\<lparr>simplify := 0.02\<rparr>) ring_image)
     = detail_contours_filtered (pipeline cv_rect example_args ring_image)"
proof -
  have h: "silhouette_mask (pipeline cv_rect (example_args\<lparr>simplify := 0.02\<rparr>) ring_image)
     = silhouette_mask (pipeline cv_rect example_args ring_image)"
    by code_simp
  show ?thesis
    using detail_layer_simplify_through_silhouette [of cv_rect example_args ring_image "0.02"] h
    by simp
qed

end
